theory Spec2Isabelle
  imports Complex_Main "HOL-Library.Multiset"
begin

section \<open>A Galton-board simulator: configuration and numeric conventions\<close>

text \<open>
  The program is one script, \<^verbatim>\<open>galton.py\<close>: constants, a collision callback, the
  peg and separator layout, the main loop with its spawner, and the audio synthesis that
  follows the loop. The physics engine, the renderer and the clock are outside the
  script; what they hand to the script on each tick is an explicit input here.

  Python floats are read as exact reals, Python's unbounded integers as \<open>int\<close>, and
  quantities that count things (frames, balls, samples per second) as \<open>nat\<close>.
\<close>

datatype error = ZeroDivisionError | ValueError

record config =
  screen_width :: int
  screen_height :: int
  fps :: nat
  levels :: int
  ball_count :: nat
  drop_interval :: real
  ball_size :: real
  peg_size :: real
  spawn_range :: real
  sample_rate :: nat
  velocity_threshold :: real
  floor_thickness :: int
  visual_offset :: int

text \<open>The constants of the script's CONFIGURATION block.\<close>

definition galton_config :: config where
  "galton_config =
     \<lparr>screen_width = 512, screen_height = 768, fps = 60, levels = 10,
      ball_count = 200, drop_interval = 1 / 4, ball_size = 1 / 100, peg_size = 5 / 1000,
      spawn_range = 2, sample_rate = 44100, velocity_threshold = 50,
      floor_thickness = 5, visual_offset = 10\<rparr>"

text \<open>Python's \<^verbatim>\<open>int(x)\<close> on a float truncates towards zero.\<close>

definition py_int :: "real \<Rightarrow> int" where
  "py_int x = (if 0 \<le> x then \<lfloor>x\<rfloor> else \<lceil>x\<rceil>)"

definition BALL_RADIUS :: "config \<Rightarrow> int" where
  "BALL_RADIUS cfg = py_int (real_of_int (screen_width cfg) * ball_size cfg)"


section \<open>Simulation state and the collision callback\<close>

record body =
  velocity :: "real \<times> real"

record shape =
  collision_type :: int
  shape_body :: body

record arbiter =
  shapes :: "shape \<times> shape"

text \<open>
  The module-level variables the loop and the callback write. \<open>frames\<close> holds the
  clock value that names each saved frame; \<open>sounds_played\<close> counts the calls of
  \<^verbatim>\<open>pygame_tick_sound.play()\<close>.
\<close>

record sim_state =
  balls :: "(real \<times> real) list"
  balls_dropped :: nat
  spawn_timer :: real
  start_time :: int
  last_ball_drop_time :: "int option"
  running :: bool
  frames :: "int list"
  collision_times :: "real list"
  sounds_played :: nat

text \<open>
  \<^verbatim>\<open>handle_collision(arbiter, space, data)\<close>; \<open>now\<close> is what
  \<^verbatim>\<open>pygame.time.get_ticks()\<close> returns inside the callback. The result pairs the
  callback's return value with the updated state.
\<close>

definition handle_collision :: "config \<Rightarrow> int \<Rightarrow> arbiter \<Rightarrow> sim_state \<Rightarrow> bool \<times> sim_state" where
  "handle_collision cfg now arb s =
     (let ball_shape =
            (if collision_type (fst (shapes arb)) = 1 then fst (shapes arb)
             else snd (shapes arb));
          vel = snd (velocity (shape_body ball_shape))
      in if \<bar>vel\<bar> > velocity_threshold cfg
         then (let collision_time = real_of_int (now - start_time s) / 1000
               in (True, s\<lparr>collision_times := collision_times s @ [collision_time],
                           sounds_played := Suc (sounds_played s)\<rparr>))
         else (True, s))"

text \<open>Two concrete shapes: a ball with a given vertical velocity, and a peg.\<close>

definition falling_ball :: "real \<Rightarrow> shape" where
  "falling_ball vy = \<lparr>collision_type = 1, shape_body = \<lparr>velocity = (0, vy)\<rparr>\<rparr>"

definition peg_shape :: shape where
  "peg_shape = \<lparr>collision_type = 0, shape_body = \<lparr>velocity = (0, 0)\<rparr>\<rparr>"

section \<open>Peg layout and bin separators\<close>

text \<open>
  The layout constants of the script. Each is a Python division; \<open>layout\<close> below
  checks the divisors in the order the script evaluates them, so the definitions here
  are only read where the divisor is not zero.
\<close>

definition offset_y :: "config \<Rightarrow> real" where
  "offset_y cfg = real_of_int (screen_height cfg) / real_of_int (levels cfg + 4)"



























section \<open>The main loop\<close>

text \<open>
  What the environment supplies during one pass of the loop body: the milliseconds
  \<^verbatim>\<open>clock.tick(FPS)\<close> returns, the value of \<^verbatim>\<open>random.uniform\<close>, whether the event
  queue holds a QUIT event, the contact-begin callbacks the physics sub-steps make (each
  with the clock value read inside the callback), and the three other readings of
  \<^verbatim>\<open>pygame.time.get_ticks()\<close>.
\<close>

record tick_input =
  clock_ms :: nat
  jitter :: real
  ticks_at_spawn :: int
  quit_event :: bool
  contacts :: "(int \<times> arbiter) list"
  ticks_at_frame :: int
  ticks_at_check :: int

definition spawn_x :: "config \<Rightarrow> real" where
  "spawn_x cfg = real_of_int (screen_width cfg) / 2"

definition spawn_y :: "config \<Rightarrow> real" where
  "spawn_y cfg = offset_y cfg - real_of_int (BALL_RADIUS cfg)"

definition initial_state :: "int \<Rightarrow> sim_state" where
  "initial_state t0 =
     \<lparr>balls = [], balls_dropped = 0, spawn_timer = 0, start_time = t0,
      last_ball_drop_time = None, running = True, frames = [], collision_times = [],
      sounds_played = 0\<rparr>"

text \<open>The first statements of the loop body: the accumulator and the spawn branch.\<close>

definition spawn_step :: "config \<Rightarrow> tick_input \<Rightarrow> sim_state \<Rightarrow> sim_state" where
  "spawn_step cfg i s =
     (let dt = real (clock_ms i) / 1000;
          s1 = s\<lparr>spawn_timer := spawn_timer s + dt\<rparr>
      in if balls_dropped s1 < ball_count cfg \<and> spawn_timer s1 \<ge> drop_interval cfg
         then s1\<lparr>balls := balls s1 @ [(spawn_x cfg + jitter i, spawn_y cfg)],
                 balls_dropped := balls_dropped s1 + 1,
                 spawn_timer := spawn_timer s1 - drop_interval cfg,
                 last_ball_drop_time := Some (ticks_at_spawn i)\<rparr>
         else s1)"

text \<open>The callbacks of one tick, in order; their return values go to the engine.\<close>

fun run_callbacks :: "config \<Rightarrow> (int \<times> arbiter) list \<Rightarrow> sim_state \<Rightarrow> sim_state" where
  "run_callbacks cfg [] s = s"
| "run_callbacks cfg ((now, arb) # cs) s =
     run_callbacks cfg cs (snd (handle_collision cfg now arb s))"

text \<open>
  One pass of the loop body. The last test is
  \<^verbatim>\<open>last_ball_drop_time and (get_ticks() - last_ball_drop_time > 10000)\<close>: None and 0
  are both false in Python.
\<close>

definition tick :: "config \<Rightarrow> tick_input \<Rightarrow> sim_state \<Rightarrow> sim_state" where
  "tick cfg i s =
     (let s1 = spawn_step cfg i s;
          s2 = (if quit_event i then s1\<lparr>running := False\<rparr> else s1);
          s3 = run_callbacks cfg (contacts i) s2;
          s4 = s3\<lparr>frames := frames s3 @ [ticks_at_frame i]\<rparr>
      in case last_ball_drop_time s4 of
           None \<Rightarrow> s4
         | Some t \<Rightarrow>
             if t \<noteq> 0 \<and> ticks_at_check i - t > 10000 then s4\<lparr>running := False\<rparr> else s4)"

text \<open>
  \<^verbatim>\<open>while running:\<close> over the inputs the environment supplies. The loop has left
  when \<open>running\<close> is False in the result; a result with \<open>running\<close> still True means
  that the loop has consumed every input and goes on.
\<close>

fun main_loop :: "config \<Rightarrow> tick_input list \<Rightarrow> sim_state \<Rightarrow> sim_state" where
  "main_loop cfg [] s = s"
| "main_loop cfg (i # is) s = (if running s then main_loop cfg is (tick cfg i s) else s)"


text \<open>A tick with no QUIT event and no contact, for concrete runs.\<close>

definition quiet_tick :: "nat \<Rightarrow> int \<Rightarrow> tick_input" where
  "quiet_tick ms now =
     \<lparr>clock_ms = ms, jitter = 0, ticks_at_spawn = now, quit_event = False, contacts = [],
      ticks_at_frame = now, ticks_at_check = now\<rparr>"

text \<open>
  The test that ends the loop in the variant \<^verbatim>\<open>base-1.py\<close>: all balls are dropped and
  every dynamic body is nearly still. \<open>vels\<close> are the velocities of the dynamic bodies.
\<close>

definition base1_stop :: "config \<Rightarrow> nat \<Rightarrow> (real \<times> real) list \<Rightarrow> bool" where
  "base1_stop cfg dropped vels \<longleftrightarrow>
     dropped = ball_count cfg \<and> list_all (\<lambda>(vx, vy). \<bar>vy\<bar> < 1 / 10 \<and> \<bar>vx\<bar> < 1 / 10) vels"

section \<open>Audio synthesis\<close>

text \<open>
  How Python normalises one bound of a slice against the length of the sequence: a
  negative bound counts from the end, and both are cut to the range of the sequence.
\<close>

definition adjust_index :: "int \<Rightarrow> nat \<Rightarrow> nat" where
  "adjust_index i len = (if i < 0 then nat (max 0 (i + int len)) else min (nat i) len)"

text \<open>Adding \<open>ws\<close> element by element to the part of \<open>buf\<close> that starts at \<open>a\<close>.\<close>

definition add_at :: "real list \<Rightarrow> nat \<Rightarrow> real list \<Rightarrow> real list" where
  "add_at buf a ws =
     take a buf @ map2 (+) (take (length ws) (drop a buf)) ws @ drop (a + length ws) buf"

text \<open>
  One pass of the overlay loop, \<^verbatim>\<open>audio_samples[idx_start:idx_end] += tick_waveform\<close>.
  The slice is a view of \<open>m\<close> samples; numpy adds a waveform of the same length element
  by element, broadcasts a waveform of length one, and raises ValueError otherwise.
\<close>

definition overlay :: "config \<Rightarrow> real list \<Rightarrow> real \<Rightarrow> real list \<Rightarrow> error + real list" where
  "overlay cfg tick_waveform ct audio_samples =
     (let idx_start = py_int (ct * real (sample_rate cfg));
          idx_end = idx_start + int (length tick_waveform);
          a = adjust_index idx_start (length audio_samples);
          b = adjust_index idx_end (length audio_samples);
          m = b - a
      in if length tick_waveform = m then Inr (add_at audio_samples a tick_waveform)
         else if length tick_waveform = 1
         then Inr (add_at audio_samples a (replicate m (tick_waveform ! 0)))
         else Inl ValueError)"

fun overlay_all :: "config \<Rightarrow> real list \<Rightarrow> real list \<Rightarrow> real list \<Rightarrow> error + real list" where
  "overlay_all cfg tick_waveform [] audio_samples = Inr audio_samples"
| "overlay_all cfg tick_waveform (ct # cts) audio_samples =
     (case overlay cfg tick_waveform ct audio_samples of
        Inl e \<Rightarrow> Inl e
      | Inr audio_samples' \<Rightarrow> overlay_all cfg tick_waveform cts audio_samples')"

definition np_clip :: "real \<Rightarrow> real \<Rightarrow> real \<Rightarrow> real" where
  "np_clip lo hi x = min hi (max lo x)"

text \<open>
  The audio block after the loop, up to \<^verbatim>\<open>np.clip\<close>: from the tick waveform, the
  number of frames and the collision log to the clipped samples. The tick waveform,
  which the script computes once from a sine and a Hann window, is a parameter.
\<close>

definition audio_synthesis :: "config \<Rightarrow> real list \<Rightarrow> nat \<Rightarrow> real list \<Rightarrow> error + real list" where
  "audio_synthesis cfg tick_waveform n_frames cts =
     (if fps cfg = 0 then Inl ZeroDivisionError
      else
        (let video_duration = real n_frames / real (fps cfg);
             audio_samples =
               replicate (nat (py_int (real (sample_rate cfg) * video_duration))
                            + length tick_waveform) 0
         in case overlay_all cfg tick_waveform cts audio_samples of
              Inl e \<Rightarrow> Inl e
            | Inr buf \<Rightarrow> Inr (map (np_clip (- 1) 1) buf)))"

subsection \<open>The reference waveform\<close>




text \<open>
  What one pass of the overlay loop does to a buffer of \<open>len\<close> samples, read off
  \<open>overlay\<close>: where the view starts, how long it is, whether numpy accepts the
  addition, what is added, and the amount added at index \<open>j\<close>.
\<close>

definition view_start :: "config \<Rightarrow> nat \<Rightarrow> real \<Rightarrow> nat" where
  "view_start cfg len ct = adjust_index (py_int (ct * real (sample_rate cfg))) len"

definition view_len :: "config \<Rightarrow> real list \<Rightarrow> nat \<Rightarrow> real \<Rightarrow> nat" where
  "view_len cfg w len ct =
     adjust_index (py_int (ct * real (sample_rate cfg)) + int (length w)) len
       - view_start cfg len ct"

definition overlay_ok :: "config \<Rightarrow> real list \<Rightarrow> nat \<Rightarrow> real \<Rightarrow> bool" where
  "overlay_ok cfg w len ct \<longleftrightarrow> length w = view_len cfg w len ct \<or> length w = 1"

definition addend :: "config \<Rightarrow> real list \<Rightarrow> nat \<Rightarrow> real \<Rightarrow> real list" where
  "addend cfg w len ct =
     (if length w = view_len cfg w len ct then w else replicate (view_len cfg w len ct) (w ! 0))"

definition contribution :: "config \<Rightarrow> real list \<Rightarrow> nat \<Rightarrow> real \<Rightarrow> nat \<Rightarrow> real" where
  "contribution cfg w len ct j =
     (if view_start cfg len ct \<le> j \<and> j < view_start cfg len ct + length (addend cfg w len ct)
      then addend cfg w len ct ! (j - view_start cfg len ct) else 0)"

text \<open>The length of the buffer that \<open>audio_synthesis\<close> allocates.\<close>

definition buffer_len :: "config \<Rightarrow> real list \<Rightarrow> nat \<Rightarrow> nat" where
  "buffer_len cfg w n_frames =
     nat (py_int (real (sample_rate cfg) * (real n_frames / real (fps cfg)))) + length w"

section \<open>Collision classifier\<close>

text \<open>
  C1. For a contact between a ball (collision type 1) and a non-ball shape, in either
  order, the callback appends exactly one timestamp, the clock's milliseconds since
  \<open>start_time\<close> divided by 1000, when the absolute vertical velocity of the ball's body
  exceeds the threshold, and changes nothing otherwise; it returns True in both cases.
\<close>

theorem handle_collision_audible:
  assumes "collision_type ball = 1" and "collision_type other \<noteq> 1"
    and "shapes arb = (ball, other) \<or> shapes arb = (other, ball)"
  shows "handle_collision cfg now arb s =
           (True,
            if \<bar>snd (velocity (shape_body ball))\<bar> > velocity_threshold cfg
            then s\<lparr>collision_times :=
                     collision_times s @ [real_of_int (now - start_time s) / 1000],
                   sounds_played := Suc (sounds_played s)\<rparr>
            else s)"
  using assms by (auto simp: handle_collision_def Let_def)

theorem handle_collision_audible_witness:
  "handle_collision galton_config 1500 \<lparr>shapes = (falling_ball (- 120), peg_shape)\<rparr>
     (initial_state 1000) =
     (True, (initial_state 1000)\<lparr>collision_times := [1 / 2], sounds_played := 1\<rparr>) \<and>
   handle_collision galton_config 1500 \<lparr>shapes = (peg_shape, falling_ball 50)\<rparr>
     (initial_state 1000) = (True, initial_state 1000)"
proof -
  have b: "collision_type (falling_ball v) = 1" for v by (simp add: falling_ball_def)
  have p: "collision_type peg_shape \<noteq> 1" by (simp add: peg_shape_def)
  have "handle_collision galton_config 1500 \<lparr>shapes = (falling_ball (- 120), peg_shape)\<rparr>
     (initial_state 1000) =
     (True, (initial_state 1000)\<lparr>collision_times := [1 / 2], sounds_played := 1\<rparr>)"
    using handle_collision_audible [OF b p, of "\<lparr>shapes = (falling_ball (- 120), peg_shape)\<rparr>" "- 120"
        galton_config 1500 "initial_state 1000"]
    by (simp add: falling_ball_def galton_config_def initial_state_def)
  moreover have "handle_collision galton_config 1500 \<lparr>shapes = (peg_shape, falling_ball 50)\<rparr>
     (initial_state 1000) = (True, initial_state 1000)"
    using handle_collision_audible [OF b p, of "\<lparr>shapes = (peg_shape, falling_ball 50)\<rparr>" 50
        galton_config 1500 "initial_state 1000"]
    by (simp add: falling_ball_def galton_config_def)
  ultimately show ?thesis by simp
qed

section \<open>Layout of the peg rows\<close>











section \<open>Bin separators\<close>











section \<open>Layout errors\<close>






section \<open>The spawner\<close>

lemma run_callbacks_frame:
  "balls (run_callbacks cfg cs s) = balls s"
  "balls_dropped (run_callbacks cfg cs s) = balls_dropped s"
  "spawn_timer (run_callbacks cfg cs s) = spawn_timer s"
  "last_ball_drop_time (run_callbacks cfg cs s) = last_ball_drop_time s"
  "running (run_callbacks cfg cs s) = running s"
  "frames (run_callbacks cfg cs s) = frames s"
  by (induction cfg cs s rule: run_callbacks.induct; simp add: handle_collision_def Let_def)+

lemma tick_spawn_fields:
  "balls (tick cfg i s) = balls (spawn_step cfg i s)"
  "balls_dropped (tick cfg i s) = balls_dropped (spawn_step cfg i s)"
  "spawn_timer (tick cfg i s) = spawn_timer (spawn_step cfg i s)"
  "last_ball_drop_time (tick cfg i s) = last_ball_drop_time (spawn_step cfg i s)"
  by (simp_all add: tick_def Let_def run_callbacks_frame split: option.splits)

lemma tick_frames: "frames (tick cfg i s) = frames s @ [ticks_at_frame i]"
  by (simp add: tick_def Let_def run_callbacks_frame spawn_step_def split: option.splits)

lemma spawn_step_count:
  "balls_dropped (spawn_step cfg i s) =
     (if balls_dropped s < ball_count cfg \<and>
         drop_interval cfg \<le> spawn_timer s + real (clock_ms i) / 1000
      then balls_dropped s + 1 else balls_dropped s)"
  "length (balls (spawn_step cfg i s)) =
     (if balls_dropped s < ball_count cfg \<and>
         drop_interval cfg \<le> spawn_timer s + real (clock_ms i) / 1000
      then length (balls s) + 1 else length (balls s))"
  "spawn_timer (spawn_step cfg i s) =
     (if balls_dropped s < ball_count cfg \<and>
         drop_interval cfg \<le> spawn_timer s + real (clock_ms i) / 1000
      then spawn_timer s + real (clock_ms i) / 1000 - drop_interval cfg
      else spawn_timer s + real (clock_ms i) / 1000)"
  by (simp_all add: spawn_step_def Let_def)

lemma tick_count_inv:
  "balls_dropped s \<le> ball_count cfg \<and> length (balls s) = balls_dropped s \<Longrightarrow>
   balls_dropped (tick cfg i s) \<le> ball_count cfg \<and>
   length (balls (tick cfg i s)) = balls_dropped (tick cfg i s)"
  by (simp add: tick_spawn_fields spawn_step_count)

lemma main_loop_count_inv:
  "balls_dropped s \<le> ball_count cfg \<and> length (balls s) = balls_dropped s \<Longrightarrow>
   balls_dropped (main_loop cfg is s) \<le> ball_count cfg \<and>
   length (balls (main_loop cfg is s)) = balls_dropped (main_loop cfg is s)"
proof (induction "is" arbitrary: s)
  case Nil
  then show ?case by simp
next
  case (Cons i "is")
  show ?case
  proof (cases "running s")
    case True
    from Cons.prems have "balls_dropped (tick cfg i s) \<le> ball_count cfg \<and>
        length (balls (tick cfg i s)) = balls_dropped (tick cfg i s)"
      by (rule tick_count_inv)
    then show ?thesis using True by (simp add: Cons.IH)
  next
    case False
    with Cons.prems show ?thesis by simp
  qed
qed

text \<open>
  C6. The number of balls spawned never exceeds the configured total: the bound holds in
  the initial state, every tick keeps it, and so it holds after any number of ticks of
  the main loop; the number of ball bodies created equals the counter.
\<close>

theorem spawned_never_exceeds_total:
  "balls_dropped (initial_state t0) \<le> ball_count cfg \<and>
   balls_dropped (main_loop cfg ticks (initial_state t0)) \<le> ball_count cfg \<and>
   length (balls (main_loop cfg ticks (initial_state t0))) =
     balls_dropped (main_loop cfg ticks (initial_state t0)) \<and>
   (balls_dropped s \<le> ball_count cfg \<longrightarrow> balls_dropped (tick cfg i s) \<le> ball_count cfg)"
proof -
  have i: "balls_dropped (initial_state t0) \<le> ball_count cfg \<and>
      length (balls (initial_state t0)) = balls_dropped (initial_state t0)"
    by (simp add: initial_state_def)
  from main_loop_count_inv [OF i]
  have "balls_dropped (main_loop cfg ticks (initial_state t0)) \<le> ball_count cfg \<and>
   length (balls (main_loop cfg ticks (initial_state t0))) =
     balls_dropped (main_loop cfg ticks (initial_state t0))" .
  moreover have "balls_dropped s \<le> ball_count cfg \<longrightarrow> balls_dropped (tick cfg i s) \<le> ball_count cfg"
    by (simp add: tick_spawn_fields spawn_step_count)
  ultimately show ?thesis using i by simp
qed

theorem spawned_never_exceeds_total_witness:
  "balls_dropped (main_loop (galton_config\<lparr>ball_count := 1\<rparr>)
      [quiet_tick 300 300, quiet_tick 300 600, quiet_tick 300 900] (initial_state 0)) = 1 \<and>
   balls_dropped (main_loop (galton_config\<lparr>ball_count := 1\<rparr>)
      [quiet_tick 300 300, quiet_tick 300 600, quiet_tick 300 900] (initial_state 0))
     \<le> ball_count (galton_config\<lparr>ball_count := 1\<rparr>) \<and>
   balls_dropped (tick (galton_config\<lparr>ball_count := 1\<rparr>) (quiet_tick 300 300) (initial_state 0))
     \<le> ball_count (galton_config\<lparr>ball_count := 1\<rparr>)"
proof -
  have e: "balls_dropped (main_loop (galton_config\<lparr>ball_count := 1\<rparr>)
      [quiet_tick 300 300, quiet_tick 300 600, quiet_tick 300 900] (initial_state 0)) = 1"
    by (simp add: tick_def spawn_step_def Let_def quiet_tick_def initial_state_def galton_config_def)
  have "balls_dropped (initial_state 0) \<le> ball_count (galton_config\<lparr>ball_count := 1\<rparr>)"
    by (simp add: initial_state_def)
  with spawned_never_exceeds_total [of 0 "galton_config\<lparr>ball_count := 1\<rparr>"
      "[quiet_tick 300 300, quiet_tick 300 600, quiet_tick 300 900]" "initial_state 0"
      "quiet_tick 300 300"] e
  show ?thesis by simp
qed









section \<open>Audio synthesis, sample by sample\<close>

lemma adjust_index_le: "adjust_index i len \<le> len"
  by (auto simp: adjust_index_def max_def)

lemma view_fits: "view_start cfg len ct + view_len cfg w len ct \<le> len"
  using adjust_index_le [of "py_int (ct * real (sample_rate cfg))" len]
    adjust_index_le [of "py_int (ct * real (sample_rate cfg)) + int (length w)" len]
  by (simp add: view_start_def view_len_def)

lemma addend_fits: "view_start cfg len ct + length (addend cfg w len ct) \<le> len"
  using view_fits [of cfg len ct w] by (simp add: addend_def)

lemma length_add_at: "a + length ws \<le> length buf \<Longrightarrow> length (add_at buf a ws) = length buf"
  by (simp add: add_at_def)

lemma add_at_nth:
  assumes "a + length ws \<le> length buf" and "j < length buf"
  shows "add_at buf a ws ! j =
           buf ! j + (if a \<le> j \<and> j < a + length ws then ws ! (j - a) else 0)"
proof -
  consider (before) "j < a" | (inside) "a \<le> j" "j < a + length ws" | (after) "a + length ws \<le> j"
    by linarith
  then show ?thesis
  proof cases
    case before
    with assms show ?thesis by (simp add: add_at_def nth_append)
  next
    case inside
    then have "j - a < length ws" by linarith
    with inside assms show ?thesis by (simp add: add_at_def nth_append)
  next
    case after
    then have "\<not> j - a < length ws" and "\<not> j < a" by arith+
    with after assms show ?thesis by (simp add: add_at_def nth_append)
  qed
qed

lemma overlay_cases:
  "overlay cfg w ct buf =
     (if overlay_ok cfg w (length buf) ct
      then Inr (add_at buf (view_start cfg (length buf) ct) (addend cfg w (length buf) ct))
      else Inl ValueError)"
  by (simp add: overlay_def Let_def overlay_ok_def addend_def view_len_def view_start_def)

lemma overlay_pointwise:
  "overlay cfg w ct buf =
     (if overlay_ok cfg w (length buf) ct
      then Inr (map (\<lambda>j. buf ! j + contribution cfg w (length buf) ct j) [0..<length buf])
      else Inl ValueError)"
proof -
  let ?a = "view_start cfg (length buf) ct" and ?ws = "addend cfg w (length buf) ct"
  have f: "?a + length ?ws \<le> length buf" by (rule addend_fits)
  have "add_at buf ?a ?ws =
      map (\<lambda>j. buf ! j + contribution cfg w (length buf) ct j) [0..<length buf]"
  proof (rule nth_equalityI)
    show "length (add_at buf ?a ?ws) =
        length (map (\<lambda>j. buf ! j + contribution cfg w (length buf) ct j) [0..<length buf])"
      using f by (simp add: length_add_at)
  next
    fix j assume "j < length (add_at buf ?a ?ws)"
    then have j: "j < length buf" using f by (simp add: length_add_at)
    show "add_at buf ?a ?ws ! j =
        map (\<lambda>j. buf ! j + contribution cfg w (length buf) ct j) [0..<length buf] ! j"
      using j by (simp add: add_at_nth [OF f j] contribution_def)
  qed
  then show ?thesis by (simp add: overlay_cases)
qed

lemma overlay_all_pointwise:
  "overlay_all cfg w cts buf =
     (if \<forall>ct \<in> set cts. overlay_ok cfg w (length buf) ct
      then Inr (map (\<lambda>j. buf ! j + (\<Sum>ct\<leftarrow>cts. contribution cfg w (length buf) ct j))
                  [0..<length buf])
      else Inl ValueError)"
proof (induction cts arbitrary: buf)
  case Nil
  show ?case by (simp add: map_nth)
next
  case (Cons ct cts)
  show ?case
  proof (cases "overlay_ok cfg w (length buf) ct")
    case False
    then show ?thesis by (simp add: overlay_pointwise)
  next
    case True
    let ?buf = "map (\<lambda>j. buf ! j + contribution cfg w (length buf) ct j) [0..<length buf]"
    have o: "overlay cfg w ct buf = Inr ?buf" using True by (simp add: overlay_pointwise)
    have l: "length ?buf = length buf" by simp
    have m: "map (\<lambda>j. ?buf ! j + (\<Sum>c\<leftarrow>cts. contribution cfg w (length buf) c j)) [0..<length buf]
        = map (\<lambda>j. buf ! j + (\<Sum>c\<leftarrow>ct # cts. contribution cfg w (length buf) c j)) [0..<length buf]"
      by (rule map_cong) simp_all
    show ?thesis
      using True m by (simp add: o Cons.IH [of ?buf] del: upt_eq_Nil_conv)
  qed
qed

lemma audio_synthesis_pointwise:
  assumes "fps cfg \<noteq> 0"
  shows "audio_synthesis cfg w n cts =
     (if \<forall>ct \<in> set cts. overlay_ok cfg w (buffer_len cfg w n) ct
      then Inr (map (\<lambda>j. np_clip (- 1) 1 (\<Sum>ct\<leftarrow>cts. contribution cfg w (buffer_len cfg w n) ct j))
                  [0..<buffer_len cfg w n])
      else Inl ValueError)"
proof -
  let ?L = "buffer_len cfg w n"
  have "overlay_all cfg w cts (replicate ?L 0) =
     (if \<forall>ct \<in> set cts. overlay_ok cfg w ?L ct
      then Inr (map (\<lambda>j. (\<Sum>ct\<leftarrow>cts. contribution cfg w ?L ct j)) [0..<?L])
      else Inl ValueError)"
    by (simp add: overlay_all_pointwise cong: map_cong)
  then show ?thesis
    using assms by (simp add: audio_synthesis_def Let_def buffer_len_def comp_def)
qed

text \<open>
  C9. Synthesising from any permutation of a collision log gives the same result as
  synthesising from the log itself: the same clipped waveform, or the same error when
  an event's slice does not take the waveform. Over exact reals the equality is exact.
\<close>

theorem synthesis_order_independent:
  assumes "mset cts = mset cts'"
  shows "audio_synthesis cfg w n cts = audio_synthesis cfg w n cts'"
proof (cases "fps cfg = 0")
  case True
  then show ?thesis by (simp add: audio_synthesis_def)
next
  case False
  have s: "set cts = set cts'" using assms by (rule mset_eq_setD)
  have "(\<Sum>ct\<leftarrow>cts. f ct) = (\<Sum>ct\<leftarrow>cts'. f ct)" for f :: "real \<Rightarrow> real"
  proof -
    have "mset (map f cts) = mset (map f cts')" using assms by simp
    then have "sum_mset (mset (map f cts)) = sum_mset (mset (map f cts'))" by simp
    then show ?thesis by (simp only: sum_mset_sum_list)
  qed
  then show ?thesis
    by (simp add: audio_synthesis_pointwise [OF False] s)
qed

theorem synthesis_order_independent_witness:
  "mset [1 / 100, 1 / 5 :: real] = mset [1 / 5, 1 / 100] \<and>
   audio_synthesis galton_config [1 / 2, 1 / 4] 60 [1 / 100, 1 / 5] =
     audio_synthesis galton_config [1 / 2, 1 / 4] 60 [1 / 5, 1 / 100]"
proof -
  have h: "mset [1 / 100, 1 / 5 :: real] = mset [1 / 5, 1 / 100]" by simp
  from synthesis_order_independent [OF h] h show ?thesis by blast
qed

section \<open>Audio synthesis against the reference waveform\<close>









section \<open>A run with no balls\<close>

lemma tick_no_balls:
  assumes "ball_count cfg = 0" and "\<not> quit_event i"
    and "running s" and "last_ball_drop_time s = None"
  shows "running (tick cfg i s)" and "last_ball_drop_time (tick cfg i s) = None"
    and "balls_dropped (tick cfg i s) = balls_dropped s"
proof -
  have l: "last_ball_drop_time (spawn_step cfg i s) = None"
    using assms(1,4) by (simp add: spawn_step_def Let_def)
  then show "last_ball_drop_time (tick cfg i s) = None"
    by (simp add: tick_spawn_fields)
  have "running (spawn_step cfg i s)"
    using assms(1,3) by (simp add: spawn_step_def Let_def)
  then show "running (tick cfg i s)"
    using assms(2) l by (simp add: tick_def Let_def run_callbacks_frame)
  show "balls_dropped (tick cfg i s) = balls_dropped s"
    using assms(1) by (simp add: tick_spawn_fields spawn_step_count)
qed

lemma main_loop_no_balls:
  assumes "ball_count cfg = 0" and "\<forall>i \<in> set ticks. \<not> quit_event i"
    and "running s" and "last_ball_drop_time s = None"
  shows "running (main_loop cfg ticks s) \<and>
         last_ball_drop_time (main_loop cfg ticks s) = None \<and>
         balls_dropped (main_loop cfg ticks s) = balls_dropped s \<and>
         length (frames (main_loop cfg ticks s)) = length (frames s) + length ticks"
  using assms(2-)
proof (induction ticks arbitrary: s)
  case Nil
  then show ?case by simp
next
  case (Cons i ticks)
  from Cons.prems have q: "\<not> quit_event i" and r: "\<forall>i \<in> set ticks. \<not> quit_event i"
    by simp_all
  note t = tick_no_balls [OF assms(1) q Cons.prems(2,3)]
  from Cons.IH [OF r t(1,2)] t(3) Cons.prems(2) show ?case
    by (simp add: tick_frames)
qed

text \<open>
  C7, on the code. With a ball count of 0 the spawn branch is never taken, so
  \<open>last_ball_drop_time\<close> stays None and the timeout test, which starts with the
  truth value of \<open>last_ball_drop_time\<close>, never holds: as long as no QUIT event arrives
  the loop goes on, one more frame with every tick, whatever the clock shows. The test
  of \<^verbatim>\<open>base-1.py\<close> holds at once in the same situation. The synthesis from an empty
  log is silent and has the computed length.
\<close>

theorem zero_balls_loop_goes_on:
  assumes "ball_count cfg = 0" and "\<forall>i \<in> set ticks. \<not> quit_event i"
  shows "running (main_loop cfg ticks (initial_state t0)) \<and>
         length (frames (main_loop cfg ticks (initial_state t0))) = length ticks \<and>
         balls_dropped (main_loop cfg ticks (initial_state t0)) = 0 \<and>
         last_ball_drop_time (main_loop cfg ticks (initial_state t0)) = None \<and>
         base1_stop cfg (balls_dropped (initial_state t0)) [] \<and>
         (fps cfg \<noteq> 0 \<longrightarrow>
            audio_synthesis cfg w n [] = Inr (replicate (buffer_len cfg w n) 0))"
proof -
  have a: "fps cfg \<noteq> 0 \<longrightarrow>
      audio_synthesis cfg w n [] = Inr (replicate (buffer_len cfg w n) 0)"
    by (simp add: audio_synthesis_def Let_def buffer_len_def np_clip_def)
  have "running (initial_state t0)" and "last_ball_drop_time (initial_state t0) = None"
    by (simp_all add: initial_state_def)
  from main_loop_no_balls [OF assms this] assms(1) a show ?thesis
    by (simp add: initial_state_def base1_stop_def)
qed

theorem zero_balls_loop_goes_on_witness:
  "ball_count (galton_config\<lparr>ball_count := 0\<rparr>) = 0 \<and>
   running (main_loop (galton_config\<lparr>ball_count := 0\<rparr>)
      [quiet_tick 17 17, quiet_tick 17 34, quiet_tick 20000 20034] (initial_state 0)) \<and>
   length (frames (main_loop (galton_config\<lparr>ball_count := 0\<rparr>)
      [quiet_tick 17 17, quiet_tick 17 34, quiet_tick 20000 20034] (initial_state 0))) = 3"
proof -
  have h1: "ball_count (galton_config\<lparr>ball_count := 0\<rparr>) = 0" by simp
  have h2: "\<forall>i \<in> set [quiet_tick 17 17, quiet_tick 17 34, quiet_tick 20000 20034]. \<not> quit_event i"
    by (simp add: quiet_tick_def)
  from zero_balls_loop_goes_on [OF h1 h2, of 0] h1 show ?thesis by simp
qed

end
